theory Spec2Isabelle
  imports Main "HOL-Library.Word"
begin

section \<open>The podcast pipeline of step05/agent.py\<close>

text \<open>
  The module holds one function with logic of its own, \<open>podcast_speaker\<close>: it sends the
  script to the speech model, digs the audio payload out of the response, wraps it into a
  WAV container with the standard library's \<open>wave\<close> module writing into an \<open>io.BytesIO\<close>,
  saves the container through the tool context and reports a dictionary. Everything else
  in the module is the declaration of three language-model agents.

  Python's \<open>bytes\<close> are lists of 8-bit words. Python's \<open>str\<close> is modelled as \<open>string\<close>, the
  text in UTF-8; the only operation the module applies to text is concatenation, which
  commutes with the encoding. Integers are sizes and counts, never negative: \<open>nat\<close>.
\<close>

type_synonym byte = "8 word"
type_synonym bytes = "byte list"

subsection \<open>Exceptions\<close>

text \<open>
  \<open>StructError\<close> is \<open>struct.error\<close>, \<open>WaveError\<close> is \<open>wave.Error\<close>, \<open>AssertionError\<close> is a
  failed \<open>assert\<close>; \<open>Raised\<close> is whatever the speech client or the artifact service raises.
\<close>

datatype error = StructError | WaveError | AssertionError | Raised string

definition bind :: "error + 'a \<Rightarrow> ('a \<Rightarrow> error + 'b) \<Rightarrow> error + 'b" where
  "bind m f = (case m of Inl e \<Rightarrow> Inl e | Inr x \<Rightarrow> f x)"

subsection \<open>io.BytesIO\<close>

text \<open>
  A buffer and a position. \<open>write\<close> overwrites from the position on, extends the
  buffer where the data reaches past its end (padding with zero bytes when the position itself
  is past the end), and moves the position behind the data.
\<close>

record bytesio =
  buf :: bytes
  pos :: nat

definition BytesIO :: bytesio where
  "BytesIO = \<lparr>buf = [], pos = 0\<rparr>"

definition bio_write :: "bytesio \<Rightarrow> bytes \<Rightarrow> bytesio" where
  "bio_write f d =
     \<lparr>buf = take (pos f) (buf f) @ replicate (pos f - length (buf f)) 0 @ d
              @ drop (pos f + length d) (buf f),
      pos = pos f + length d\<rparr>"

definition bio_tell :: "bytesio \<Rightarrow> nat" where
  "bio_tell f = pos f"

definition bio_seek :: "bytesio \<Rightarrow> nat \<Rightarrow> bytesio" where
  "bio_seek f p = f\<lparr>pos := p\<rparr>"

definition getvalue :: "bytesio \<Rightarrow> bytes" where
  "getvalue f = buf f"

subsection \<open>struct.pack\<close>

text \<open>
  The little-endian formats \<open><L\<close> (4 bytes) and \<open><H\<close> (2 bytes). \<open>struct.pack\<close> raises
  \<open>struct.error\<close> when the number does not fit the field.
\<close>

definition byte_of :: "nat \<Rightarrow> byte" where
  "byte_of n = of_nat (n mod 256)"

definition pack_L :: "nat \<Rightarrow> error + bytes" where
  "pack_L n =
     (if n < 2 ^ 32
      then Inr [byte_of n, byte_of (n div 256), byte_of (n div 256 div 256),
                byte_of (n div 256 div 256 div 256)]
      else Inl StructError)"

definition pack_H :: "nat \<Rightarrow> error + bytes" where
  "pack_H n =
     (if n < 2 ^ 16 then Inr [byte_of n, byte_of (n div 256)] else Inl StructError)"

definition RIFF :: bytes where "RIFF = [0x52, 0x49, 0x46, 0x46]"
definition WAVE :: bytes where "WAVE = [0x57, 0x41, 0x56, 0x45]"
definition fmt_id :: bytes where "fmt_id = [0x66, 0x6D, 0x74, 0x20]"
definition data_id :: bytes where "data_id = [0x64, 0x61, 0x74, 0x61]"

definition WAVE_FORMAT_PCM :: nat where
  "WAVE_FORMAT_PCM = 1"

text \<open>
  \<open>struct.pack('<L4s4sLHHLLHH4s', form_length, b'WAVE', b'fmt ', 16, WAVE_FORMAT_PCM,
  nchannels, framerate, avg_bytes_per_sec, block_align, bits, b'data')\<close>.
\<close>

definition pack_fmt ::
  "nat \<Rightarrow> nat \<Rightarrow> nat \<Rightarrow> nat \<Rightarrow> nat \<Rightarrow> nat \<Rightarrow> nat \<Rightarrow> nat \<Rightarrow> error + bytes" where
  "pack_fmt form_length fmt_size tag nch rate avg align bits =
     bind (pack_L form_length) (\<lambda>b1.
     bind (pack_L fmt_size) (\<lambda>b2.
     bind (pack_H tag) (\<lambda>b3.
     bind (pack_H nch) (\<lambda>b4.
     bind (pack_L rate) (\<lambda>b5.
     bind (pack_L avg) (\<lambda>b6.
     bind (pack_H align) (\<lambda>b7.
     bind (pack_H bits) (\<lambda>b8.
     Inr (b1 @ WAVE @ fmt_id @ b2 @ b3 @ b4 @ b5 @ b6 @ b7 @ b8 @ data_id)))))))))"

subsection \<open>wave.Wave_write\<close>

text \<open>
  The writer object of the standard library, with the fields its methods read and write
  (\<open>fp\<close> is its \<open>_file\<close>).
  The two header positions are attributes that \<open>_write_header\<close> creates; they are read
  only by \<open>_patchheader\<close>, which asserts that the header has been written.
\<close>

record wave_write =
  fp :: bytesio
  nchannels :: nat
  sampwidth :: nat
  framerate :: nat
  nframes :: nat
  nframeswritten :: nat
  datawritten :: nat
  datalength :: nat
  headerwritten :: bool
  form_length_pos :: nat
  data_length_pos :: nat

definition initfp :: "bytesio \<Rightarrow> wave_write" where
  "initfp f =
     \<lparr>fp = f, nchannels = 0, sampwidth = 0, framerate = 0, nframes = 0,
      nframeswritten = 0, datawritten = 0, datalength = 0, headerwritten = False,
      form_length_pos = 0, data_length_pos = 0\<rparr>"

definition setnchannels :: "wave_write \<Rightarrow> nat \<Rightarrow> error + wave_write" where
  "setnchannels w n =
     (if datawritten w \<noteq> 0 then Inl WaveError
      else if n < 1 then Inl WaveError
      else Inr (w\<lparr>nchannels := n\<rparr>))"

definition setsampwidth :: "wave_write \<Rightarrow> nat \<Rightarrow> error + wave_write" where
  "setsampwidth w n =
     (if datawritten w \<noteq> 0 then Inl WaveError
      else if n < 1 \<or> n > 4 then Inl WaveError
      else Inr (w\<lparr>sampwidth := n\<rparr>))"

definition setframerate :: "wave_write \<Rightarrow> nat \<Rightarrow> error + wave_write" where
  "setframerate w n =
     (if datawritten w \<noteq> 0 then Inl WaveError
      else if n \<le> 0 then Inl WaveError
      else Inr (w\<lparr>framerate := n\<rparr>))"

definition write_header :: "wave_write \<Rightarrow> nat \<Rightarrow> error + wave_write" where
  "write_header w initlength =
     (if headerwritten w then Inl AssertionError
      else
        let f1 = bio_write (fp w) RIFF;
            nfr = (if nframes w = 0 then initlength div (nchannels w * sampwidth w)
                   else nframes w);
            dl = nfr * nchannels w * sampwidth w;
            flp = bio_tell f1
        in bind (pack_fmt (36 + dl) 16 WAVE_FORMAT_PCM (nchannels w) (framerate w)
                   (nchannels w * framerate w * sampwidth w)
                   (nchannels w * sampwidth w) (sampwidth w * 8)) (\<lambda>h.
           let f2 = bio_write f1 h;
               dlp = bio_tell f2
           in bind (pack_L dl) (\<lambda>l.
              Inr (w\<lparr>fp := bio_write f2 l, nframes := nfr, datalength := dl,
                     form_length_pos := flp, data_length_pos := dlp,
                     headerwritten := True\<rparr>))))"

definition ensure_header_written :: "wave_write \<Rightarrow> nat \<Rightarrow> error + wave_write" where
  "ensure_header_written w datasize =
     (if \<not> headerwritten w then
        if nchannels w = 0 then Inl WaveError
        else if sampwidth w = 0 then Inl WaveError
        else if framerate w = 0 then Inl WaveError
        else write_header w datasize
      else Inr w)"

definition patchheader :: "wave_write \<Rightarrow> error + wave_write" where
  "patchheader w =
     (if \<not> headerwritten w then Inl AssertionError
      else if datawritten w = datalength w then Inr w
      else
        let curpos = bio_tell (fp w);
            f1 = bio_seek (fp w) (form_length_pos w)
        in bind (pack_L (36 + datawritten w)) (\<lambda>a.
           let f2 = bio_seek (bio_write f1 a) (data_length_pos w)
           in bind (pack_L (datawritten w)) (\<lambda>b.
              Inr (w\<lparr>fp := bio_seek (bio_write f2 b) curpos,
                     datalength := datawritten w\<rparr>))))"

text \<open>
  \<open>writeframesraw\<close> on a \<open>bytes\<close> argument. No conversion is installed (\<open>_convert\<close> is
  \<open>None\<close>), and on a little-endian host the samples are written as they are.
\<close>

definition writeframesraw :: "wave_write \<Rightarrow> bytes \<Rightarrow> error + wave_write" where
  "writeframesraw w d =
     bind (ensure_header_written w (length d)) (\<lambda>w1.
       let nfr = length d div (sampwidth w1 * nchannels w1)
       in Inr (w1\<lparr>fp := bio_write (fp w1) d,
                  datawritten := datawritten w1 + length d,
                  nframeswritten := nframeswritten w1 + nfr\<rparr>))"

definition writeframes :: "wave_write \<Rightarrow> bytes \<Rightarrow> error + wave_write" where
  "writeframes w d =
     bind (writeframesraw w d) (\<lambda>w1.
       if datalength w1 \<noteq> datawritten w1 then patchheader w1 else Inr w1)"

definition close :: "wave_write \<Rightarrow> error + wave_write" where
  "close w =
     bind (ensure_header_written w 0) (\<lambda>w1.
       if datalength w1 \<noteq> datawritten w1 then patchheader w1 else Inr w1)"


subsection \<open>The packaging block of podcast_speaker\<close>

text \<open>
  Lines 82 to 87: a fresh \<open>io.BytesIO\<close>, \<open>wave.open(wav_on_memory, 'wb')\<close> as a context
  manager, three setters and \<open>writeframes\<close>; leaving the \<open>with\<close> block calls \<open>close\<close>. The
  value is what \<open>wav_on_memory.getvalue()\<close> returns afterwards. An exception inside the
  block leaves it through \<open>__exit__\<close>, whose \<open>close\<close> cannot swallow it: an exception
  reaches the caller in either case.
\<close>

definition wav_on_memory :: "bytes \<Rightarrow> error + bytes" where
  "wav_on_memory audio =
     bind (setnchannels (initfp BytesIO) 1) (\<lambda>wf1.
     bind (setsampwidth wf1 2) (\<lambda>wf2.
     bind (setframerate wf2 24000) (\<lambda>wf3.
     bind (writeframes wf3 audio) (\<lambda>wf4.
     bind (close wf4) (\<lambda>wf5.
     Inr (getvalue (fp wf5)))))))"

subsection \<open>The speech request and its response\<close>

text \<open>
  The request that \<open>client.models.generate_content\<close> receives. A speaker's voice
  configuration is flattened to the speaker label and the name of the prebuilt voice.
\<close>

record speaker_voice_config =
  speaker :: string
  voice_name :: string

record request =
  model :: string
  contents :: string
  response_modalities :: "string list"
  speaker_voice_configs :: "speaker_voice_config list"

text \<open>
  The response, as far as the function reads it. Every level is optional in the client
  library's types; a list is absent or a list, an object is absent or present.
\<close>

record blob =
  data :: "bytes option"
  mime_type :: "string option"

record part =
  inline_data :: "blob option"

record content =
  parts :: "part list option"

record candidate =
  content :: "content option"

record response =
  candidates :: "candidate list option"

definition MODEL_GEMINI_2_5_FLASH_PREVIEW_TTS :: string where
  "MODEL_GEMINI_2_5_FLASH_PREVIEW_TTS = ''gemini-2.5-flash-preview-tts''"

text \<open>
  The first line of the prompt, a Japanese sentence of 27 characters asking for a
  conversation of two people in a bright and crisp tone, in UTF-8 (79 bytes).
\<close>

definition preamble :: string where
  "preamble =
     [CHR 0xE6, CHR 0x98, CHR 0x8E, CHR 0xE3, CHR 0x82, CHR 0x8B,
      CHR 0xE3, CHR 0x81, CHR 0x8F, CHR 0xE3, CHR 0x83, CHR 0x8F,
      CHR 0xE3, CHR 0x82, CHR 0xAD, CHR 0xE3, CHR 0x83, CHR 0x8F,
      CHR 0xE3, CHR 0x82, CHR 0xAD, CHR 0xE3, CHR 0x81, CHR 0xA8,
      CHR 0xE3, CHR 0x81, CHR 0x97, CHR 0xE3, CHR 0x81, CHR 0x9F,
      CHR 0xE3, CHR 0x83, CHR 0x88, CHR 0xE3, CHR 0x83, CHR 0xBC,
      CHR 0xE3, CHR 0x83, CHR 0xB3, CHR 0xE3, CHR 0x81, CHR 0xA7,
      CHR 0x32, CHR 0xE4, CHR 0xBA, CHR 0xBA, CHR 0xE3, CHR 0x81,
      CHR 0xA7, CHR 0xE4, CHR 0xBC, CHR 0x9A, CHR 0xE8, CHR 0xA9,
      CHR 0xB1, CHR 0xE3, CHR 0x82, CHR 0x92, CHR 0xE3, CHR 0x81,
      CHR 0x97, CHR 0xE3, CHR 0x81, CHR 0xA6, CHR 0xE3, CHR 0x81,
      CHR 0x8F, CHR 0xE3, CHR 0x81, CHR 0xA0, CHR 0xE3, CHR 0x81,
      CHR 0x95, CHR 0xE3, CHR 0x81, CHR 0x84, CHR 0xE3, CHR 0x80,
      CHR 0x82]"

definition synthesis_request :: "string \<Rightarrow> request" where
  "synthesis_request script =
     \<lparr>model = MODEL_GEMINI_2_5_FLASH_PREVIEW_TTS,
      contents = preamble @ [CHR 0x0A] @ script,
      response_modalities = [''AUDIO''],
      speaker_voice_configs =
        [\<lparr>speaker = ''Speaker 1'', voice_name = ''Puck''\<rparr>,
         \<lparr>speaker = ''Speaker 2'', voice_name = ''Zephyr''\<rparr>]\<rparr>"

text \<open>
  Lines 64 to 72: \<open>audio_content\<close> starts as \<open>None\<close> and is assigned only under the nested
  truth tests. A list is true when it is present and not empty, an object when it is
  present; the response object itself is always true.
\<close>

definition audio_content :: "response \<Rightarrow> bytes option" where
  "audio_content response =
     (case candidates response of
        Some (candidate # _) \<Rightarrow>
          (case content candidate of
             Some c \<Rightarrow>
               (case parts c of
                  Some (p # _) \<Rightarrow>
                    (case inline_data p of
                       Some b \<Rightarrow> data b
                     | None \<Rightarrow> None)
                | _ \<Rightarrow> None)
           | None \<Rightarrow> None)
      | _ \<Rightarrow> None)"

subsection \<open>Effects\<close>

text \<open>
  The function talks to the speech client, the logger and the artifact service of the
  tool context. The two services are parameters: each answers a call with a value or
  raises. What the function did is recorded as a trace of events, in order.
\<close>

record env =
  generate_content :: "request \<Rightarrow> error + response"
  save_artifact :: "string \<Rightarrow> part \<Rightarrow> error + nat"

datatype event =
    GenerateContent request
  | LogInfo string
  | SaveArtifact string part

definition from_bytes :: "bytes \<Rightarrow> string \<Rightarrow> part" where
  "from_bytes d m = \<lparr>inline_data = Some \<lparr>data = Some d, mime_type = Some m\<rparr>\<rparr>"

text \<open>Decimal digits of a number, as \<open>str\<close> of an \<open>int\<close> in the f-string of line 80.\<close>

fun str_nat :: "nat \<Rightarrow> string" where
  "str_nat n =
     (if n < 10 then [char_of (48 + n)]
      else str_nat (n div 10) @ [char_of (48 + n mod 10)])"

declare str_nat.simps [simp del]

type_synonym result = "(string \<times> string) list"

definition failure_result :: result where
  "failure_result =
     [(''status'', ''failure''),
      (''detail'', ''failed to generate podcast audio'')]"

definition success_result :: result where
  "success_result =
     [(''status'', ''success''),
      (''detail'', ''Audio generated successfully and stored in artifacts.''),
      (''filename'', ''podcast.wav'')]"

definition podcast_speaker ::
  "env \<Rightarrow> string \<Rightarrow> event list \<Rightarrow> (error + result) \<times> event list" where
  "podcast_speaker e script tr =
     (let req = synthesis_request script;
          tr1 = tr @ [GenerateContent req]
      in (case generate_content e req of
            Inl x \<Rightarrow> (Inl x, tr1)
          | Inr response \<Rightarrow>
             (case audio_content response of
                None \<Rightarrow> (Inr failure_result, tr1)
              | Some audio \<Rightarrow>
                 (let tr2 = tr1 @ [LogInfo (''Audio length: '' @ str_nat (length audio))]
                  in (case wav_on_memory audio of
                        Inl x \<Rightarrow> (Inl x, tr2)
                      | Inr wav \<Rightarrow>
                         (let artifact = from_bytes wav ''audio/wav'';
                              tr3 = tr2 @ [SaveArtifact ''podcast.wav'' artifact]
                          in (case save_artifact e ''podcast.wav'' artifact of
                                Inl x \<Rightarrow> (Inl x, tr3)
                              | Inr v \<Rightarrow> (Inr success_result, tr3))))))))"


subsection \<open>Reading a trace\<close>

fun saved :: "event \<Rightarrow> (string \<times> part) list" where
  "saved (SaveArtifact filename artifact) = [(filename, artifact)]"
| "saved (GenerateContent req) = []"
| "saved (LogInfo msg) = []"

fun requested :: "event \<Rightarrow> request list" where
  "requested (GenerateContent req) = [req]"
| "requested (SaveArtifact filename artifact) = []"
| "requested (LogInfo msg) = []"

definition store_calls :: "event list \<Rightarrow> (string \<times> part) list" where
  "store_calls tr = concat (map saved tr)"

definition synthesis_calls :: "event list \<Rightarrow> request list" where
  "synthesis_calls tr = concat (map requested tr)"

subsection \<open>Reading a WAV container\<close>

text \<open>
  The canonical layout of a PCM WAV file with one \<open>fmt\<close> chunk of 16 bytes followed by the
  \<open>data\<close> chunk: 44 bytes of header, then the samples. \<open>read_header\<close> checks the four
  identifiers, the size of the \<open>fmt\<close> chunk and the PCM format tag, and decodes the
  little-endian fields.
\<close>

definition le_nat :: "bytes \<Rightarrow> nat" where
  "le_nat bs = foldr (\<lambda>b n. unat b + 256 * n) bs 0"

record wav_params =
  riff_size :: nat
  channels :: nat
  sample_rate :: nat
  byte_rate :: nat
  block_align :: nat
  bits_per_sample :: nat
  data_size :: nat

definition read_header :: "bytes \<Rightarrow> wav_params option" where
  "read_header w =
     (if 44 \<le> length w \<and> take 4 w = RIFF \<and> take 4 (drop 8 w) = WAVE
         \<and> take 4 (drop 12 w) = fmt_id \<and> le_nat (take 4 (drop 16 w)) = 16
         \<and> le_nat (take 2 (drop 20 w)) = WAVE_FORMAT_PCM
         \<and> take 4 (drop 36 w) = data_id
      then Some \<lparr>riff_size = le_nat (take 4 (drop 4 w)),
                 channels = le_nat (take 2 (drop 22 w)),
                 sample_rate = le_nat (take 4 (drop 24 w)),
                 byte_rate = le_nat (take 4 (drop 28 w)),
                 block_align = le_nat (take 2 (drop 32 w)),
                 bits_per_sample = le_nat (take 2 (drop 34 w)),
                 data_size = le_nat (take 4 (drop 40 w))\<rparr>
      else None)"

definition strip_header :: "bytes \<Rightarrow> bytes" where
  "strip_header w = drop 44 w"

text \<open>The parameters that the function's three setters ask for, over \<open>n\<close> bytes of samples.\<close>

definition mono16_24k :: "nat \<Rightarrow> wav_params" where
  "mono16_24k n =
     \<lparr>riff_size = 36 + n, channels = 1, sample_rate = 24000, byte_rate = 48000,
      block_align = 2, bits_per_sample = 16, data_size = n\<rparr>"

subsection \<open>Auxiliary values of the proofs\<close>

text \<open>The writer after the three setters, and after \<open>writeframes d\<close>.\<close>

definition hdr :: "nat \<Rightarrow> nat \<Rightarrow> bytes" where
  "hdr a n =
     RIFF @ [byte_of a, byte_of (a div 256), byte_of (a div 256 div 256),
             byte_of (a div 256 div 256 div 256)]
     @ WAVE @ fmt_id
     @ [16, 0, 0, 0,  1, 0,  1, 0,  0xC0, 0x5D, 0, 0,  0x80, 0xBB, 0, 0,  2, 0,  16, 0]
     @ data_id
     @ [byte_of n, byte_of (n div 256), byte_of (n div 256 div 256),
        byte_of (n div 256 div 256 div 256)]"

definition configured :: wave_write where
  "configured =
     \<lparr>fp = BytesIO, nchannels = 1, sampwidth = 2, framerate = 24000, nframes = 0,
      nframeswritten = 0, datawritten = 0, datalength = 0, headerwritten = False,
      form_length_pos = 0, data_length_pos = 0\<rparr>"

definition written :: "bytes \<Rightarrow> wave_write" where
  "written d =
     configured\<lparr>fp := \<lparr>buf = hdr (36 + length d) (length d) @ d, pos = 44 + length d\<rparr>,
        nframes := length d div 2, datalength := length d, form_length_pos := 4,
        data_length_pos := 40, headerwritten := True, datawritten := length d,
        nframeswritten := length d div 2\<rparr>"

subsection \<open>Fixtures\<close>

text \<open>
  A speech service that answers every request with one candidate holding one part with
  the given payload, beside an artifact service that accepts every call; the same speech
  service beside an artifact service that raises; a speech service that raises.
\<close>

definition stub_response :: "bytes \<Rightarrow> response" where
  "stub_response pcm =
     \<lparr>candidates = Some [\<lparr>content = Some \<lparr>parts = Some
        [\<lparr>inline_data = Some \<lparr>data = Some pcm, mime_type = Some ''audio/L16''\<rparr>\<rparr>]\<rparr>\<rparr>]\<rparr>"

definition answering :: "response \<Rightarrow> env" where
  "answering r = \<lparr>generate_content = (\<lambda>req. Inr r), save_artifact = (\<lambda>f a. Inr 0)\<rparr>"

definition stub_env :: "bytes \<Rightarrow> env" where
  "stub_env pcm = answering (stub_response pcm)"

definition failing_store_env :: "bytes \<Rightarrow> env" where
  "failing_store_env pcm =
     \<lparr>generate_content = (\<lambda>req. Inr (stub_response pcm)),
      save_artifact = (\<lambda>f a. Inl (Raised ''artifact service unavailable''))\<rparr>"


definition example_transcript :: string where
  "example_transcript = ''Speaker 1: Hello'' @ [CHR 0x0A] @ ''Speaker 2: Hi there''"

definition example_payload :: bytes where
  "example_payload = concat (replicate 100 [0, 1])"

definition huge_payload :: bytes where
  "huge_payload = replicate 4294967260 0"

subsection \<open>Shapes of a response without a payload\<close>

text \<open>
  The ways in which a response can lack audio, one per level of nesting. An absent list
  counts as an empty one, as it does for the truth tests of the function.
\<close>

definition no_candidates :: "response \<Rightarrow> bool" where
  "no_candidates r = (candidates r = None \<or> candidates r = Some [])"

definition no_content :: "response \<Rightarrow> bool" where
  "no_content r =
     (case candidates r of
        Some (c # _) \<Rightarrow> content c = None
      | _ \<Rightarrow> False)"

definition empty_parts :: "response \<Rightarrow> bool" where
  "empty_parts r =
     (case candidates r of
        Some (c # _) \<Rightarrow>
          (case content c of
             Some ct \<Rightarrow> parts ct = None \<or> parts ct = Some []
           | None \<Rightarrow> False)
      | _ \<Rightarrow> False)"

definition no_inline_data :: "response \<Rightarrow> bool" where
  "no_inline_data r =
     (case candidates r of
        Some (c # _) \<Rightarrow>
          (case content c of
             Some ct \<Rightarrow>
               (case parts ct of
                  Some (p # _) \<Rightarrow> inline_data p = None
                | _ \<Rightarrow> False)
           | None \<Rightarrow> False)
      | _ \<Rightarrow> False)"

definition inline_data_without_bytes :: "response \<Rightarrow> bool" where
  "inline_data_without_bytes r =
     (case candidates r of
        Some (c # _) \<Rightarrow>
          (case content c of
             Some ct \<Rightarrow>
               (case parts ct of
                  Some (p # _) \<Rightarrow>
                    (case inline_data p of
                       Some b \<Rightarrow> data b = None
                     | None \<Rightarrow> False)
                | _ \<Rightarrow> False)
           | None \<Rightarrow> False)
      | _ \<Rightarrow> False)"

definition blob_without_bytes :: response where
  "blob_without_bytes =
     \<lparr>candidates = Some [\<lparr>content = Some \<lparr>parts = Some
        [\<lparr>inline_data = Some \<lparr>data = None, mime_type = Some ''audio/L16''\<rparr>\<rparr>]\<rparr>\<rparr>]\<rparr>"


section \<open>The WAV writer in closed form\<close>

lemma pack_fmt_const:
  "n < 2 ^ 32 \<Longrightarrow>
   pack_fmt n 16 WAVE_FORMAT_PCM 1 24000 (1 * 24000 * 2) (1 * 2) (2 * 8) =
     Inr ([byte_of n, byte_of (n div 256), byte_of (n div 256 div 256),
           byte_of (n div 256 div 256 div 256)] @ WAVE @ fmt_id
          @ [16, 0, 0, 0,  1, 0,  1, 0,  0xC0, 0x5D, 0, 0,  0x80, 0xBB, 0, 0,  2, 0,  16, 0]
          @ data_id)"
  by (simp add: pack_fmt_def bind_def pack_L_def pack_H_def byte_of_def WAVE_FORMAT_PCM_def)

lemma pack_fmt_overflow:
  "\<not> n < 2 ^ 32 \<Longrightarrow> pack_fmt n a b c d e f g = Inl StructError"
  by (simp add: pack_fmt_def pack_L_def bind_def)

lemma length_hdr: "length (hdr a b) = 44"
  by (simp add: hdr_def RIFF_def WAVE_def fmt_id_def data_id_def)

lemma setters:
  "bind (setnchannels (initfp BytesIO) 1) (\<lambda>wf1.
     bind (setsampwidth wf1 2) (\<lambda>wf2. bind (setframerate wf2 24000) f)) = f configured"
  by (simp add: setnchannels_def setsampwidth_def setframerate_def initfp_def bind_def
      configured_def)

lemma ensure_header_configured:
  "ensure_header_written configured k = write_header configured k"
  by (simp add: ensure_header_written_def configured_def)

lemma write_header_configured:
  assumes dl: "dl = k div 2 * 2" and b: "36 + dl < 2 ^ 32"
  shows "write_header configured k =
     Inr (configured\<lparr>fp := \<lparr>buf = hdr (36 + dl) dl, pos = 44\<rparr>,
        nframes := k div 2, datalength := dl, form_length_pos := 4,
        data_length_pos := 40, headerwritten := True\<rparr>)"
proof -
  have p: "pack_L dl = Inr [byte_of dl, byte_of (dl div 256), byte_of (dl div 256 div 256),
             byte_of (dl div 256 div 256 div 256)]"
    using b by (simp add: pack_L_def)
  have "pack_fmt (36 + dl) 16 WAVE_FORMAT_PCM 1 24000 (1 * 24000 * 2) (1 * 2) (2 * 8) =
     Inr ([byte_of (36 + dl), byte_of ((36 + dl) div 256), byte_of ((36 + dl) div 256 div 256),
           byte_of ((36 + dl) div 256 div 256 div 256)] @ WAVE @ fmt_id
          @ [16, 0, 0, 0,  1, 0,  1, 0,  0xC0, 0x5D, 0, 0,  0x80, 0xBB, 0, 0,  2, 0,  16, 0]
          @ data_id)"
    using b by (rule pack_fmt_const)
  then have q: "pack_fmt (36 + dl) 16 WAVE_FORMAT_PCM (Suc 0) 24000 48000 2 16 =
     Inr ([byte_of (36 + dl), byte_of ((36 + dl) div 256), byte_of ((36 + dl) div 256 div 256),
           byte_of ((36 + dl) div 256 div 256 div 256)] @ WAVE @ fmt_id
          @ [16, 0, 0, 0,  1, 0,  1, 0,  0xC0, 0x5D, 0, 0,  0x80, 0xBB, 0, 0,  2, 0,  16, 0]
          @ data_id)"
    by simp
  show ?thesis
    by (simp add: write_header_def configured_def Let_def bio_write_def bio_tell_def
        BytesIO_def dl [symmetric] q p bind_def hdr_def RIFF_def WAVE_def fmt_id_def
        data_id_def)
qed

lemma writeframesraw_configured:
  assumes dl: "dl = length d div 2 * 2" and b: "36 + dl < 2 ^ 32"
  shows "writeframesraw configured d =
     Inr (configured\<lparr>fp := \<lparr>buf = hdr (36 + dl) dl @ d, pos = 44 + length d\<rparr>,
        nframes := length d div 2, datalength := dl, form_length_pos := 4,
        data_length_pos := 40, headerwritten := True, datawritten := length d,
        nframeswritten := length d div 2\<rparr>)"
  unfolding writeframesraw_def ensure_header_configured write_header_configured [OF dl b]
  by (simp add: bind_def Let_def bio_write_def length_hdr configured_def)

lemma patch_buf:
  "bio_seek (bio_write (bio_seek (bio_write (bio_seek \<lparr>buf = hdr a b @ d, pos = p\<rparr> 4)
       [x0, x1, x2, x3]) 40) [y0, y1, y2, y3]) p
   = \<lparr>buf = RIFF @ [x0, x1, x2, x3] @ WAVE @ fmt_id
        @ [16, 0, 0, 0,  1, 0,  1, 0,  0xC0, 0x5D, 0, 0,  0x80, 0xBB, 0, 0,  2, 0,  16, 0]
        @ data_id @ [y0, y1, y2, y3] @ d,
      pos = p\<rparr>"
  by (simp add: bio_seek_def bio_write_def hdr_def RIFF_def WAVE_def fmt_id_def data_id_def)

lemma writeframes_configured:
  assumes b: "length d + 36 < 2 ^ 32"
  shows "writeframes configured d = Inr (written d)"
proof -
  define dl where "dl = length d div 2 * 2"
  have "dl \<le> length d" by (simp add: dl_def)
  with b have b': "36 + dl < 2 ^ 32" by simp
  note raw = writeframesraw_configured [OF dl_def b']
  show ?thesis
  proof (cases "dl = length d")
    case True
    then show ?thesis
      unfolding writeframes_def raw
      by (simp add: bind_def written_def configured_def)
  next
    case False
    have p1: "pack_L (36 + length d) =
        Inr [byte_of (36 + length d), byte_of ((36 + length d) div 256),
             byte_of ((36 + length d) div 256 div 256),
             byte_of ((36 + length d) div 256 div 256 div 256)]"
      using b by (simp add: pack_L_def)
    have p2: "pack_L (length d) =
        Inr [byte_of (length d), byte_of (length d div 256),
             byte_of (length d div 256 div 256), byte_of (length d div 256 div 256 div 256)]"
      using b by (simp add: pack_L_def)
    from False show ?thesis
      unfolding writeframes_def raw
      by (simp add: bind_def patchheader_def Let_def bio_tell_def p1 p2 patch_buf)
        (simp add: written_def configured_def hdr_def)
  qed
qed

lemma close_written: "close (written d) = Inr (written d)"
  by (simp add: close_def ensure_header_written_def written_def bind_def)

lemma wav_on_memory_fits:
  assumes "length d + 36 < 2 ^ 32"
  shows "wav_on_memory d = Inr (hdr (36 + length d) (length d) @ d)"
  unfolding wav_on_memory_def setters writeframes_configured [OF assms]
  by (simp add: bind_def close_written getvalue_def) (simp add: written_def)

lemma wav_on_memory_overflow:
  assumes "\<not> length d + 36 < 2 ^ 32"
  shows "wav_on_memory d = Inl StructError"
proof -
  define dl where "dl = length d div 2 * 2"
  have "(2::nat) ^ 32 = 4294967296" by simp
  with assms have "\<not> 36 + dl < 2 ^ 32"
    unfolding dl_def by presburger
  then have h: "write_header configured (length d) = Inl StructError"
    by (simp add: write_header_def configured_def Let_def dl_def [symmetric]
        pack_fmt_overflow bind_def)
  show ?thesis
    unfolding wav_on_memory_def setters writeframes_def writeframesraw_def
      ensure_header_configured h
    by (simp add: bind_def)
qed

lemma unat_byte_of: "unat (byte_of n) = n mod 256"
  by (simp add: byte_of_def unat_of_nat)

lemma le_nat_4:
  assumes "n < 2 ^ 32"
  shows "le_nat [byte_of n, byte_of (n div 256), byte_of (n div 256 div 256),
                 byte_of (n div 256 div 256 div 256)] = n"
proof -
  have "n div 256 div 256 div 256 < 256"
    using assms by (simp add: div_mult2_eq [symmetric] less_mult_imp_div_less)
  then show ?thesis
    by (simp add: le_nat_def unat_byte_of)
qed

lemma read_header_hdr:
  assumes "n + 36 < 2 ^ 32"
  shows "read_header (hdr (36 + n) n @ d) = Some (mono16_24k n)"
proof -
  have a: "le_nat [byte_of (36 + n), byte_of ((36 + n) div 256),
      byte_of ((36 + n) div 256 div 256), byte_of ((36 + n) div 256 div 256 div 256)] = 36 + n"
    using assms by (intro le_nat_4) simp
  have b: "le_nat [byte_of n, byte_of (n div 256), byte_of (n div 256 div 256),
      byte_of (n div 256 div 256 div 256)] = n"
    using assms by (intro le_nat_4) simp
  have c: "le_nat [16, 0, 0, 0] = 16" "le_nat [1, 0] = 1" "le_nat [0xC0, 0x5D, 0, 0] = 24000"
    "le_nat [0x80, 0xBB, 0, 0] = 48000" "le_nat [2, 0] = 2" "le_nat [16, 0] = 16"
    by (simp_all add: le_nat_def)
  show ?thesis
    by (simp add: read_header_def hdr_def RIFF_def WAVE_def fmt_id_def data_id_def a b c
        mono16_24k_def WAVE_FORMAT_PCM_def)
qed

lemma strip_header_hdr: "strip_header (hdr a n @ d) = d"
  by (simp add: strip_header_def length_hdr)

lemma length_huge: "length huge_payload = 4294967260"
  by (simp add: huge_payload_def)

section \<open>Walking the response\<close>

lemma response_cases:
  obtains (none) "candidates r = None"
  | (empty) "candidates r = Some []"
  | (no_content) c cs where "candidates r = Some (c # cs)" "content c = None"
  | (no_parts) c cs ct where "candidates r = Some (c # cs)" "content c = Some ct"
      "parts ct = None"
  | (empty_parts) c cs ct where "candidates r = Some (c # cs)" "content c = Some ct"
      "parts ct = Some []"
  | (no_inline) c cs ct p ps where "candidates r = Some (c # cs)" "content c = Some ct"
      "parts ct = Some (p # ps)" "inline_data p = None"
  | (inline) c cs ct p ps b where "candidates r = Some (c # cs)" "content c = Some ct"
      "parts ct = Some (p # ps)" "inline_data p = Some b"
proof (cases "candidates r")
  case None
  then show ?thesis by (rule none)
next
  case (Some l)
  show ?thesis
  proof (cases l)
    case Nil
    with Some show ?thesis by (simp add: empty)
  next
    case (Cons c cs)
    with Some have cand: "candidates r = Some (c # cs)" by simp
    show ?thesis
    proof (cases "content c")
      case None
      with cand show ?thesis by (rule no_content)
    next
      case ct: (Some ct)
      show ?thesis
      proof (cases "parts ct")
        case None
        with cand ct show ?thesis by (rule no_parts)
      next
        case ps: (Some l')
        show ?thesis
        proof (cases l')
          case Nil
          with cand ct ps show ?thesis by (simp add: empty_parts)
        next
          case (Cons p ps')
          with ps have pp: "parts ct = Some (p # ps')" by simp
          show ?thesis
          proof (cases "inline_data p")
            case None
            with cand ct pp show ?thesis by (rule no_inline)
          next
            case (Some b)
            with cand ct pp show ?thesis by (rule inline)
          qed
        qed
      qed
    qed
  qed
qed

lemma audio_content_None_iff:
  "audio_content r = None \<longleftrightarrow>
     no_candidates r \<or> no_content r \<or> empty_parts r \<or> no_inline_data r
       \<or> inline_data_without_bytes r"
  by (cases r rule: response_cases)
    (simp_all add: audio_content_def no_candidates_def no_content_def empty_parts_def
      no_inline_data_def inline_data_without_bytes_def)

lemma podcast_speaker_no_audio:
  assumes "generate_content e (synthesis_request script) = Inr r" and "audio_content r = None"
  shows "podcast_speaker e script tr =
           (Inr failure_result, tr @ [GenerateContent (synthesis_request script)])"
  using assms by (simp add: podcast_speaker_def Let_def)

lemma podcast_speaker_audio:
  assumes "generate_content e (synthesis_request script) = Inr r"
    and "audio_content r = Some pcm" and "length pcm + 36 < 2 ^ 32"
  shows "podcast_speaker e script tr =
           ((case save_artifact e ''podcast.wav''
                   (from_bytes (hdr (36 + length pcm) (length pcm) @ pcm) ''audio/wav'') of
               Inl x \<Rightarrow> Inl x
             | Inr v \<Rightarrow> Inr success_result),
            tr @ [GenerateContent (synthesis_request script),
                  LogInfo (''Audio length: '' @ str_nat (length pcm)),
                  SaveArtifact ''podcast.wav''
                    (from_bytes (hdr (36 + length pcm) (length pcm) @ pcm) ''audio/wav'')])"
  using assms
  by (simp add: podcast_speaker_def Let_def wav_on_memory_fits split: sum.split)

lemma podcast_speaker_overflow:
  assumes "generate_content e (synthesis_request script) = Inr r"
    and "audio_content r = Some pcm" and "\<not> length pcm + 36 < 2 ^ 32"
  shows "podcast_speaker e script tr =
           (Inl StructError,
            tr @ [GenerateContent (synthesis_request script),
                  LogInfo (''Audio length: '' @ str_nat (length pcm))])"
  using assms
  by (simp add: podcast_speaker_def Let_def wav_on_memory_overflow)

lemma store_calls_append: "store_calls (xs @ ys) = store_calls xs @ store_calls ys"
  by (simp add: store_calls_def)

lemma audio_content_stub: "audio_content (stub_response pcm) = Some pcm"
  by (simp add: audio_content_def stub_response_def)

lemma generate_stub: "generate_content (stub_env pcm) req = Inr (stub_response pcm)"
  by (simp add: stub_env_def answering_def)

lemma generate_answering: "generate_content (answering r) req = Inr r"
  by (simp add: answering_def)

lemma length_example_payload: "length example_payload = 200"
  by (simp add: example_payload_def length_concat sum_list_replicate)

lemma str_nat_200: "str_nat 200 = ''200''"
  by code_simp

lemma hdr_example: "hdr 236 200 = RIFF @ [236, 0, 0, 0] @ WAVE @ fmt_id
      @ [16, 0, 0, 0,  1, 0,  1, 0,  0xC0, 0x5D, 0, 0,  0x80, 0xBB, 0, 0,  2, 0,  16, 0]
      @ data_id @ [200, 0, 0, 0]"
  by (simp add: hdr_def byte_of_def)

lemma without_bytes_disjoint:
  "inline_data_without_bytes r \<Longrightarrow>
     \<not> (no_candidates r \<or> no_content r \<or> empty_parts r \<or> no_inline_data r)"
  by (cases r rule: response_cases)
    (simp_all add: no_candidates_def no_content_def empty_parts_def no_inline_data_def
      inline_data_without_bytes_def)

lemma new_store_calls:
  assumes "generate_content e (synthesis_request script) = Inr r"
    and "audio_content r = Some pcm"
  shows "store_calls (snd (podcast_speaker e script tr)) =
           store_calls tr @
             (case wav_on_memory pcm of
                Inl x \<Rightarrow> []
              | Inr wav \<Rightarrow> [(''podcast.wav'', from_bytes wav ''audio/wav'')])"
proof (cases "length pcm + 36 < 2 ^ 32")
  case True
  show ?thesis
    by (simp add: podcast_speaker_audio [OF assms True] wav_on_memory_fits [OF True]
        store_calls_append) (simp add: store_calls_def)
next
  case False
  show ?thesis
    by (simp add: podcast_speaker_overflow [OF assms False] wav_on_memory_overflow [OF False]
        store_calls_append) (simp add: store_calls_def)
qed

lemma generate_failing:
  "generate_content (failing_store_env pcm) req = Inr (stub_response pcm)"
  by (simp add: failing_store_env_def)






section \<open>The WAV container\<close>

text \<open>
  Claim C1, as amended. For every PCM payload of fewer than \<open>2 ^ 32 - 36\<close> bytes (empty or
  not), the packaging block of \<open>podcast_speaker\<close> yields a WAV container: 44 bytes of
  header and then the payload. The header declares 1 channel, 16 bits (2 bytes) per
  sample and 24000 frames per second, its data size is the length of the payload, and
  stripping the 44 bytes gives the payload back byte for byte. On a larger payload no
  container is built: \<open>struct.pack\<close> raises.
\<close>

theorem wav_round_trip:
  "(length pcm + 36 < 2 ^ 32 \<longrightarrow>
      (\<exists>wav. wav_on_memory pcm = Inr wav
           \<and> read_header wav = Some (mono16_24k (length pcm))
           \<and> length wav = 44 + length pcm
           \<and> strip_header wav = pcm))
   \<and> (\<not> length pcm + 36 < 2 ^ 32 \<longrightarrow> wav_on_memory pcm = Inl StructError)"
  by (simp add: wav_on_memory_fits wav_on_memory_overflow read_header_hdr strip_header_hdr
      length_hdr)

theorem wav_round_trip_witness:
  "length [1, 2, 3 :: byte] + 36 < 2 ^ 32
   \<and> (\<exists>wav. wav_on_memory [1, 2, 3] = Inr wav
          \<and> read_header wav = Some (mono16_24k (length [1, 2, 3 :: byte]))
          \<and> length wav = 44 + length [1, 2, 3 :: byte]
          \<and> strip_header wav = [1, 2, 3])
   \<and> \<not> length (replicate 4294967295 (1 :: byte)) + 36 < 2 ^ 32
   \<and> wav_on_memory (replicate 4294967295 1) = Inl StructError"
  using wav_round_trip [of "[1, 2, 3]"] wav_round_trip [of "replicate 4294967295 1"]
  by simp

text \<open>
  The claim as stated, for every non-empty payload, fails where the sizes no longer fit
  the 32-bit fields of the header: on a payload of \<open>2 ^ 32 - 36\<close> bytes \<open>struct.pack\<close>
  raises and no container is built.
\<close>

theorem wav_huge: "huge_payload \<noteq> [] \<and> wav_on_memory huge_payload = Inl StructError"
  by (simp add: wav_on_memory_overflow length_huge) (simp add: huge_payload_def)

section \<open>The outcomes of podcast_speaker\<close>

text \<open>
  Claim C2. When the speech service answers with a response that has no candidates, or
  whose first candidate has no content, or whose content has no parts, or whose first
  part holds no inline data, \<open>podcast_speaker\<close> returns the failure result with the detail
  "failed to generate podcast audio"; the only effect is the speech request itself, and
  the artifact service is not called.
\<close>

theorem no_payload_is_failure:
  assumes "generate_content e (synthesis_request script) = Inr r"
    and "no_candidates r \<or> no_content r \<or> empty_parts r \<or> no_inline_data r"
  shows "podcast_speaker e script tr =
           (Inr failure_result, tr @ [GenerateContent (synthesis_request script)])
         \<and> store_calls (snd (podcast_speaker e script tr)) = store_calls tr"
proof -
  from assms(2) have "audio_content r = None"
    unfolding audio_content_None_iff by blast
  with assms(1) have "podcast_speaker e script tr =
      (Inr failure_result, tr @ [GenerateContent (synthesis_request script)])"
    by (rule podcast_speaker_no_audio)
  then show ?thesis
    by (simp add: store_calls_append) (simp add: store_calls_def)
qed

theorem no_payload_is_failure_witness:
  "podcast_speaker (answering \<lparr>candidates = None\<rparr>) example_transcript [] =
     (Inr failure_result, [GenerateContent (synthesis_request example_transcript)])
   \<and> podcast_speaker (answering \<lparr>candidates = Some [\<lparr>content = None\<rparr>]\<rparr>) example_transcript [] =
     (Inr failure_result, [GenerateContent (synthesis_request example_transcript)])
   \<and> podcast_speaker (answering \<lparr>candidates = Some [\<lparr>content = Some \<lparr>parts = Some []\<rparr>\<rparr>]\<rparr>)
       example_transcript [] =
     (Inr failure_result, [GenerateContent (synthesis_request example_transcript)])
   \<and> podcast_speaker
       (answering \<lparr>candidates = Some [\<lparr>content = Some \<lparr>parts = Some [\<lparr>inline_data = None\<rparr>]\<rparr>\<rparr>]\<rparr>)
       example_transcript [] =
     (Inr failure_result, [GenerateContent (synthesis_request example_transcript)])"
  using no_payload_is_failure [of "answering \<lparr>candidates = None\<rparr>" example_transcript
      "\<lparr>candidates = None\<rparr>" "[]"]
    no_payload_is_failure [of "answering \<lparr>candidates = Some [\<lparr>content = None\<rparr>]\<rparr>"
      example_transcript "\<lparr>candidates = Some [\<lparr>content = None\<rparr>]\<rparr>" "[]"]
    no_payload_is_failure [of
      "answering \<lparr>candidates = Some [\<lparr>content = Some \<lparr>parts = Some []\<rparr>\<rparr>]\<rparr>"
      example_transcript "\<lparr>candidates = Some [\<lparr>content = Some \<lparr>parts = Some []\<rparr>\<rparr>]\<rparr>" "[]"]
    no_payload_is_failure [of
      "answering \<lparr>candidates = Some [\<lparr>content = Some \<lparr>parts = Some [\<lparr>inline_data = None\<rparr>]\<rparr>\<rparr>]\<rparr>"
      example_transcript
      "\<lparr>candidates = Some [\<lparr>content = Some \<lparr>parts = Some [\<lparr>inline_data = None\<rparr>]\<rparr>\<rparr>]\<rparr>" "[]"]
  by (simp add: generate_answering no_candidates_def no_content_def empty_parts_def
      no_inline_data_def)

text \<open>
  Claim C9. An inline-data object that is present while its \<open>data\<close> field is \<open>None\<close> is
  a fifth shape, apart from the four of C2, and is treated like them: the failure result,
  no call of the artifact service.
\<close>

theorem inline_data_without_bytes_is_failure:
  assumes "generate_content e (synthesis_request script) = Inr r"
    and "inline_data_without_bytes r"
  shows "podcast_speaker e script tr =
           (Inr failure_result, tr @ [GenerateContent (synthesis_request script)])
         \<and> store_calls (snd (podcast_speaker e script tr)) = store_calls tr
         \<and> \<not> (no_candidates r \<or> no_content r \<or> empty_parts r \<or> no_inline_data r)"
proof -
  from assms(2) have "audio_content r = None"
    unfolding audio_content_None_iff by blast
  with assms(1) have "podcast_speaker e script tr =
      (Inr failure_result, tr @ [GenerateContent (synthesis_request script)])"
    by (rule podcast_speaker_no_audio)
  moreover from assms(2)
  have "\<not> (no_candidates r \<or> no_content r \<or> empty_parts r \<or> no_inline_data r)"
    by (rule without_bytes_disjoint)
  ultimately show ?thesis
    by (simp add: store_calls_append) (simp add: store_calls_def)
qed

theorem inline_data_without_bytes_is_failure_witness:
  "podcast_speaker (answering blob_without_bytes) example_transcript [] =
     (Inr failure_result, [GenerateContent (synthesis_request example_transcript)])"
  using inline_data_without_bytes_is_failure [of "answering blob_without_bytes"
      example_transcript blob_without_bytes "[]"]
  by (simp add: generate_answering inline_data_without_bytes_def blob_without_bytes_def)

text \<open>
  Claim C3, as amended. When the speech service answers with a payload of fewer than
  \<open>2 ^ 32 - 36\<close> bytes, \<open>podcast_speaker\<close> calls the artifact service exactly once, with
  the filename "podcast.wav" and a part of media type "audio/wav" that holds the WAV
  container; when that call returns, the result is the success result, and when it raises,
  the exception reaches the caller.
\<close>

theorem payload_is_stored_once:
  assumes "generate_content e (synthesis_request script) = Inr r"
    and "audio_content r = Some pcm" and "length pcm + 36 < 2 ^ 32"
  shows "\<exists>wav. wav_on_memory pcm = Inr wav
          \<and> store_calls (snd (podcast_speaker e script tr)) =
              store_calls tr @ [(''podcast.wav'', from_bytes wav ''audio/wav'')]
          \<and> inline_data (from_bytes wav ''audio/wav'') =
              Some \<lparr>data = Some wav, mime_type = Some ''audio/wav''\<rparr>
          \<and> fst (podcast_speaker e script tr) =
              (case save_artifact e ''podcast.wav'' (from_bytes wav ''audio/wav'') of
                 Inl x \<Rightarrow> Inl x
               | Inr v \<Rightarrow> Inr success_result)"
  by (simp add: podcast_speaker_audio [OF assms] wav_on_memory_fits [OF assms(3)]
      store_calls_append from_bytes_def)
    (simp add: store_calls_def)

theorem payload_is_stored_once_witness:
  "store_calls (snd (podcast_speaker (stub_env example_payload) example_transcript [])) =
     [(''podcast.wav'', from_bytes (hdr 236 200 @ example_payload) ''audio/wav'')]
   \<and> fst (podcast_speaker (stub_env example_payload) example_transcript []) = Inr success_result"
  using payload_is_stored_once [of "stub_env example_payload" example_transcript
      "stub_response example_payload" example_payload "[]"]
  by (simp add: generate_stub audio_content_stub length_example_payload wav_on_memory_fits)
    (simp add: store_calls_def stub_env_def answering_def)

text \<open>
  The claim as stated, for every payload, fails on the payload of \<open>2 ^ 32 - 36\<close> bytes:
  packaging raises, the artifact service is never called and no result is returned.
\<close>

theorem huge_payload_is_not_stored:
  "audio_content (stub_response huge_payload) = Some huge_payload
   \<and> store_calls (snd (podcast_speaker (stub_env huge_payload) example_transcript [])) = []
   \<and> fst (podcast_speaker (stub_env huge_payload) example_transcript []) = Inl StructError"
proof -
  have "podcast_speaker (stub_env huge_payload) example_transcript [] =
      (Inl StructError,
       [] @ [GenerateContent (synthesis_request example_transcript),
             LogInfo (''Audio length: '' @ str_nat (length huge_payload))])"
    by (rule podcast_speaker_overflow [OF generate_stub audio_content_stub])
      (simp add: length_huge)
  then show ?thesis
    by (simp add: audio_content_stub store_calls_def)
qed

text \<open>
  Claim C4. Every invocation sends exactly one request to the speech service, before
  anything else it does. The prompt is the fixed first line followed by a line feed and
  the script, the only response modality is audio, and the two speaker labels
  "Speaker 1" and "Speaker 2" are bound to two different prebuilt voices.
\<close>

theorem one_synthesis_request:
  "synthesis_calls (snd (podcast_speaker e script tr)) =
     synthesis_calls tr @ [synthesis_request script]
   \<and> take (Suc (length tr)) (snd (podcast_speaker e script tr)) =
       tr @ [GenerateContent (synthesis_request script)]
   \<and> contents (synthesis_request script) = preamble @ [CHR 0x0A] @ script
   \<and> response_modalities (synthesis_request script) = [''AUDIO'']
   \<and> map (\<lambda>c. (speaker c, voice_name c)) (speaker_voice_configs (synthesis_request script)) =
       [(''Speaker 1'', ''Puck''), (''Speaker 2'', ''Zephyr'')]
   \<and> distinct (map voice_name (speaker_voice_configs (synthesis_request script)))"
proof -
  have a: "synthesis_calls (snd (podcast_speaker e script tr)) =
      synthesis_calls tr @ [synthesis_request script]"
    by (simp add: podcast_speaker_def Let_def synthesis_calls_def
        split: sum.split option.split)
  have b: "take (Suc (length tr)) (snd (podcast_speaker e script tr)) =
      tr @ [GenerateContent (synthesis_request script)]"
    by (simp add: podcast_speaker_def Let_def split: sum.split option.split)
  show ?thesis
    unfolding a b by (simp add: synthesis_request_def)
qed

text \<open>
  Claim C5. The bytes handed to the artifact service are determined by the payload alone:
  two invocations whose speech responses carry the same payload make the same calls of
  the artifact service, whatever the services, the scripts and the outcome of the call
  are, and invoking the function a second time repeats the calls of the first.
\<close>

theorem packaging_is_deterministic:
  assumes "generate_content e1 (synthesis_request s1) = Inr r1"
    and "audio_content r1 = Some pcm"
    and "generate_content e2 (synthesis_request s2) = Inr r2"
    and "audio_content r2 = Some pcm"
  shows "store_calls (snd (podcast_speaker e1 s1 [])) =
           store_calls (snd (podcast_speaker e2 s2 []))
         \<and> store_calls (snd (podcast_speaker e1 s1 [])) =
             (case wav_on_memory pcm of
                Inl x \<Rightarrow> []
              | Inr wav \<Rightarrow> [(''podcast.wav'', from_bytes wav ''audio/wav'')])
         \<and> store_calls (snd (podcast_speaker e1 s1 (snd (podcast_speaker e1 s1 [])))) =
             store_calls (snd (podcast_speaker e1 s1 [])) @
             store_calls (snd (podcast_speaker e1 s1 []))"
  by (simp add: new_store_calls [OF assms(1,2)] new_store_calls [OF assms(3,4)])
    (simp add: store_calls_def)

theorem packaging_is_deterministic_witness:
  "store_calls (snd (podcast_speaker (stub_env example_payload) example_transcript [])) =
     store_calls (snd (podcast_speaker (failing_store_env example_payload) [] []))
   \<and> store_calls (snd (podcast_speaker (stub_env example_payload) example_transcript [])) =
     [(''podcast.wav'', from_bytes (hdr 236 200 @ example_payload) ''audio/wav'')]"
  using packaging_is_deterministic [of "stub_env example_payload" example_transcript
      "stub_response example_payload" example_payload "failing_store_env example_payload" "[]"
      "stub_response example_payload"]
  by (auto simp: generate_stub generate_failing audio_content_stub
      wav_on_memory_fits length_example_payload)

text \<open>
  Claim C6. For the payload of 100 repetitions of the bytes 0 and 1, the function stores
  a container that starts with the RIFF identifier, has a \<open>fmt\<close> chunk declaring 1
  channel, 16 bits and 24000 frames per second, and a \<open>data\<close> chunk of length 200 whose
  bytes are the payload.
\<close>

theorem example_container:
  "podcast_speaker (stub_env example_payload) example_transcript [] =
     (Inr success_result,
      [GenerateContent (synthesis_request example_transcript),
       LogInfo ''Audio length: 200'',
       SaveArtifact ''podcast.wav''
         (from_bytes
            (RIFF @ [236, 0, 0, 0] @ WAVE @ fmt_id
             @ [16, 0, 0, 0,  1, 0,  1, 0,  0xC0, 0x5D, 0, 0,  0x80, 0xBB, 0, 0,  2, 0,  16, 0]
             @ data_id @ [200, 0, 0, 0] @ example_payload)
            ''audio/wav'')])
   \<and> read_header
       (RIFF @ [236, 0, 0, 0] @ WAVE @ fmt_id
        @ [16, 0, 0, 0,  1, 0,  1, 0,  0xC0, 0x5D, 0, 0,  0x80, 0xBB, 0, 0,  2, 0,  16, 0]
        @ data_id @ [200, 0, 0, 0] @ example_payload) =
       Some \<lparr>riff_size = 236, channels = 1, sample_rate = 24000, byte_rate = 48000,
             block_align = 2, bits_per_sample = 16, data_size = 200\<rparr>
   \<and> strip_header
       (RIFF @ [236, 0, 0, 0] @ WAVE @ fmt_id
        @ [16, 0, 0, 0,  1, 0,  1, 0,  0xC0, 0x5D, 0, 0,  0x80, 0xBB, 0, 0,  2, 0,  16, 0]
        @ data_id @ [200, 0, 0, 0] @ example_payload) = example_payload
   \<and> length example_payload = 200"
proof -
  have fits: "length example_payload + 36 < 2 ^ 32"
    by (simp add: length_example_payload)
  have run: "podcast_speaker (stub_env example_payload) example_transcript [] =
      (Inr success_result,
       [GenerateContent (synthesis_request example_transcript),
        LogInfo ''Audio length: 200'',
        SaveArtifact ''podcast.wav'' (from_bytes (hdr 236 200 @ example_payload) ''audio/wav'')])"
    by (simp add: podcast_speaker_audio [OF generate_stub audio_content_stub fits]
        length_example_payload str_nat_200)
      (simp add: stub_env_def answering_def)
  have hd: "read_header (hdr 236 200 @ example_payload) = Some (mono16_24k 200)"
    using read_header_hdr [of 200 example_payload] by simp
  have st: "strip_header (hdr 236 200 @ example_payload) = example_payload"
    by (rule strip_header_hdr)
  from run hd st show ?thesis
    by (simp add: hdr_example mono16_24k_def length_example_payload)
qed




text \<open>
  Claim C10. A returned result is one of two dictionaries: the failure result, with the
  keys \<open>status\<close> and \<open>detail\<close> only, or the success result, with the keys \<open>status\<close>,
  \<open>detail\<close> and \<open>filename\<close>. So a returned result has a \<open>filename\<close> exactly when its
  status is "success".
\<close>

theorem filename_iff_success:
  assumes "fst (podcast_speaker e script tr) = Inr res"
  shows "(res = failure_result \<or> res = success_result)
         \<and> map fst failure_result = [''status'', ''detail'']
         \<and> map fst success_result = [''status'', ''detail'', ''filename'']
         \<and> (''filename'' \<in> set (map fst res) \<longleftrightarrow> map_of res ''status'' = Some ''success'')"
proof -
  from assms have "res = failure_result \<or> res = success_result"
    by (auto simp: podcast_speaker_def Let_def split: sum.splits option.splits)
  then show ?thesis
    by (auto simp: failure_result_def success_result_def)
qed

theorem filename_iff_success_witness:
  "fst (podcast_speaker (stub_env example_payload) example_transcript []) = Inr success_result
   \<and> (''filename'' \<in> set (map fst success_result)
        \<longleftrightarrow> map_of success_result ''status'' = Some ''success'')"
proof -
  have fits: "length example_payload + 36 < 2 ^ 32"
    by (simp add: length_example_payload)
  have run: "fst (podcast_speaker (stub_env example_payload) example_transcript []) =
      Inr success_result"
    by (simp add: podcast_speaker_audio [OF generate_stub audio_content_stub fits])
      (simp add: stub_env_def answering_def)
  from filename_iff_success [OF run] run show ?thesis
    by (simp add: success_result_def)
qed

end
